theory Spec2Isabelle
  imports Main "HOL-Library.Word"
begin

section \<open>Bytes, errors and panics\<close>

text \<open>
  The package \<^verbatim>\<open>gocrypt\<close> (file \<^verbatim>\<open>gocrypt.go\<close>) derives a key with scrypt and
  seals data with AES-GCM. A Go \<^verbatim>\<open>[]byte\<close> is a list of 8-bit words. The one slice
  the program compares with \<^verbatim>\<open>nil\<close> is the salt, so a salt is a \<open>bytes option\<close>
  with \<open>None\<close> for \<^verbatim>\<open>nil\<close>; every other nil slice is the empty list, which is
  what \<^verbatim>\<open>len\<close>, \<^verbatim>\<open>append\<close> and the library calls see.
\<close>

type_synonym byte = "8 word"
type_synonym bytes = "byte list"

text \<open>The conversion \<^verbatim>\<open>[]byte(s)\<close> of a string keeps its bytes.\<close>

definition bytes_of_string :: "string \<Rightarrow> bytes" where
  "bytes_of_string s = map of_char s"

text \<open>A nil slice handed to a library function is read as the empty slice.\<close>

definition slice_of :: "bytes option \<Rightarrow> bytes" where
  "slice_of s = (case s of None \<Rightarrow> [] | Some b \<Rightarrow> b)"

text \<open>
  The \<^verbatim>\<open>error\<close> values the program can hand back: those of \<^verbatim>\<open>io.ReadFull\<close>
  (\<^verbatim>\<open>io.EOF\<close>, \<^verbatim>\<open>io.ErrUnexpectedEOF\<close>, or the reader's own error), the one
  \<^verbatim>\<open>scrypt.Key\<close> builds with \<^verbatim>\<open>errors.New\<close>, \<^verbatim>\<open>aes.KeySizeError\<close>, the error of
  \<^verbatim>\<open>cipher.NewGCM\<close> for a block size other than 16, and the authentication failure
  of \<^verbatim>\<open>Open\<close>.
\<close>

datatype error =
    EOF
  | ErrUnexpectedEOF
  | ErrReader string
  | ErrScrypt string
  | KeySizeError nat
  | ErrNewGCM
  | ErrOpen

text \<open>Run-time panics: a Go function that panics returns nothing to its caller.\<close>

datatype panic =
    SliceBoundsOutOfRange
  | IncorrectNonceLength
  | MessageTooLarge

datatype 'a outcome = Returns 'a | Panics panic

section \<open>The random source\<close>

text \<open>
  \<^verbatim>\<open>rand.Reader\<close> is the only state the package touches. The program sees it
  through \<^verbatim>\<open>io.ReadFull\<close> alone, so a source is the bytes it will still deliver
  and the error it reports once they are used up.
\<close>

datatype reader = Reader (pending: bytes) (fault: error)

text \<open>
  \<^verbatim>\<open>io.ReadFull(r, buf)\<close> fills \<open>buf\<close> entirely and returns no error, or fills a
  prefix of it and returns the error: the reader's own when nothing was read,
  \<^verbatim>\<open>ErrUnexpectedEOF\<close> when the reader ended with \<^verbatim>\<open>EOF\<close> after some bytes. The
  buffer after the call and the error are returned with the advanced source.
\<close>

definition ReadFull :: "reader \<Rightarrow> bytes \<Rightarrow> (bytes \<times> error option) \<times> reader" where
  "ReadFull rd buf =
     (if length buf \<le> length (pending rd)
      then ((take (length buf) (pending rd), None),
            Reader (drop (length buf) (pending rd)) (fault rd))
      else ((pending rd @ drop (length (pending rd)) buf,
             Some (if pending rd \<noteq> [] \<and> fault rd = EOF then ErrUnexpectedEOF
                   else fault rd)),
            Reader [] (fault rd)))"

section \<open>The cryptographic primitives\<close>

text \<open>
  scrypt and AES-GCM come from libraries outside the repository. They are
  parameters of the model: \<open>scrypt_Key\<close> is \<^verbatim>\<open>scrypt.Key(password, salt, N, r, p, keyLen)\<close>
  returning the message of its error or the derived key; \<open>gcm_seal key nonce plaintext ad\<close>
  is the sealed payload (ciphertext followed by the tag) and \<open>gcm_open key nonce sealed ad\<close>
  the plaintext, or \<open>None\<close> when the tag does not verify.
\<close>

record crypto =
  scrypt_Key :: "bytes \<Rightarrow> bytes \<Rightarrow> nat \<Rightarrow> nat \<Rightarrow> nat \<Rightarrow> nat \<Rightarrow> string + bytes"
  gcm_seal :: "bytes \<Rightarrow> bytes \<Rightarrow> bytes \<Rightarrow> bytes \<Rightarrow> bytes"
  gcm_open :: "bytes \<Rightarrow> bytes \<Rightarrow> bytes \<Rightarrow> bytes \<Rightarrow> bytes option"

text \<open>
  \<^verbatim>\<open>aes.NewCipher(key)\<close> accepts keys of 16, 24 and 32 bytes and returns
  \<^verbatim>\<open>KeySizeError(len(key))\<close> for any other length. The block size of AES is 16.
\<close>

datatype block = Block (block_key: bytes)

definition aes_NewCipher :: "bytes \<Rightarrow> error + block" where
  "aes_NewCipher key =
     (if length key = 16 \<or> length key = 24 \<or> length key = 32 then Inr (Block key)
      else Inl (KeySizeError (length key)))"

definition BlockSize :: "block \<Rightarrow> nat" where
  "BlockSize b = 16"

definition aes_bits :: "block \<Rightarrow> nat" where
  "aes_bits b = 8 * length (block_key b)"

text \<open>
  \<^verbatim>\<open>cipher.NewGCM(block)\<close> refuses a cipher whose block size is not 16. The mode
  it returns has the standard nonce size of 12 bytes and a tag of 16 bytes.
\<close>

datatype gcm = GCM (gcm_block: block)

definition cipher_NewGCM :: "block \<Rightarrow> error + gcm" where
  "cipher_NewGCM b = (if BlockSize b \<noteq> 16 then Inl ErrNewGCM else Inr (GCM b))"

definition NonceSize :: "gcm \<Rightarrow> nat" where
  "NonceSize g = 12"

definition tagSize :: nat where
  "tagSize = 16"

definition max_plaintext :: "gcm \<Rightarrow> nat" where
  "max_plaintext g = (2 ^ 32 - 2) * BlockSize (gcm_block g)"

text \<open>
  \<^verbatim>\<open>Seal(dst, nonce, plaintext, ad)\<close> panics on a nonce of the wrong length and on
  a plaintext beyond the limit of GCM; otherwise it appends the sealed payload to
  \<open>dst\<close>. \<^verbatim>\<open>Open(dst, nonce, ciphertext, ad)\<close> panics on a nonce of the wrong length,
  and returns the authentication error for an input shorter than the tag, longer
  than the limit, or whose tag does not verify.
\<close>

definition Seal :: "crypto \<Rightarrow> gcm \<Rightarrow> bytes \<Rightarrow> bytes \<Rightarrow> bytes \<Rightarrow> bytes \<Rightarrow> bytes outcome" where
  "Seal c g dst nonce plaintext ad =
     (if length nonce \<noteq> NonceSize g then Panics IncorrectNonceLength
      else if max_plaintext g < length plaintext then Panics MessageTooLarge
      else Returns (dst @ gcm_seal c (block_key (gcm_block g)) nonce plaintext ad))"

definition Open ::
  "crypto \<Rightarrow> gcm \<Rightarrow> bytes \<Rightarrow> bytes \<Rightarrow> bytes \<Rightarrow> bytes \<Rightarrow> (bytes \<times> error option) outcome" where
  "Open c g dst nonce ciphertext ad =
     (if length nonce \<noteq> NonceSize g then Panics IncorrectNonceLength
      else if length ciphertext < tagSize then Returns ([], Some ErrOpen)
      else if max_plaintext g + tagSize < length ciphertext then Returns ([], Some ErrOpen)
      else (case gcm_open c (block_key (gcm_block g)) nonce ciphertext ad of
              None \<Rightarrow> Returns ([], Some ErrOpen)
            | Some plaintext \<Rightarrow> Returns (dst @ plaintext, None)))"

section \<open>The package\<close>

text \<open>
  The functions below follow \<^verbatim>\<open>gocrypt.go\<close> statement by statement. Each takes
  the primitives and the random source and returns its Go result tuple with the
  source as it leaves it. The calls of \<^verbatim>\<open>log.Println\<close> change no result and are
  left out; the conversions \<^verbatim>\<open>string(dk)\<close> and \<^verbatim>\<open>[]byte(hash)\<close> keep the bytes, and
  \<^verbatim>\<open>[]byte(salt)\<close> of a nil slice is nil.

  \<^verbatim>\<open>genSalt(nByte)\<close>: a zeroed buffer of \<open>nByte\<close> bytes is filled from the random
  source; on an error the function returns \<^verbatim>\<open>nil\<close> and the error.
\<close>

definition genSalt :: "reader \<Rightarrow> nat \<Rightarrow> (bytes option \<times> error option) \<times> reader" where
  "genSalt rd nByte =
     (let b = replicate nByte 0;
          ((b', err), rd') = ReadFull rd b
      in case err of
           Some e \<Rightarrow> ((None, Some e), rd')
         | None \<Rightarrow> ((Some b', None), rd'))"

text \<open>
  \<^verbatim>\<open>createHash(salt, pass)\<close>: a nil salt is replaced by \<^verbatim>\<open>genSalt(16)\<close>, whose error
  is discarded (\<^verbatim>\<open>salt, _ = genSalt(16)\<close>). The key is derived from the literal
  \<^verbatim>\<open>"some password"\<close>; the parameter \<open>pass\<close> is not read. The function returns the
  salt, the key as a string and the error of scrypt.
\<close>

definition createHash ::
  "crypto \<Rightarrow> reader \<Rightarrow> bytes option \<Rightarrow> string \<Rightarrow> (bytes option \<times> bytes \<times> error option) \<times> reader" where
  "createHash c rd salt pass =
     (let (salt', rd') =
            (case salt of
               None \<Rightarrow> (fst (fst (genSalt rd 16)), snd (genSalt rd 16))
             | Some s \<Rightarrow> (Some s, rd))
      in case scrypt_Key c (bytes_of_string ''some password'') (slice_of salt') 32768 8 1 32 of
           Inl msg \<Rightarrow> ((salt', [], Some (ErrScrypt msg)), rd')
         | Inr dk \<Rightarrow> ((salt', dk, None), rd'))"

text \<open>
  \<^verbatim>\<open>Encrypt(data, pass)\<close> returns the blob, the salt and the error. The result of
  \<^verbatim>\<open>io.ReadFull(rand.Reader, nonce)\<close> is dropped, and the nonce buffer is both the
  destination prefix and the nonce of \<^verbatim>\<open>Seal\<close>.
\<close>

definition Encrypt ::
  "crypto \<Rightarrow> reader \<Rightarrow> bytes \<Rightarrow> string \<Rightarrow> (bytes \<times> bytes option \<times> error option) outcome \<times> reader" where
  "Encrypt c rd data pass =
     (let ((salt, hash, err), rd1) = createHash c rd None pass
      in case err of
           Some e \<Rightarrow> (Returns ([], None, Some e), rd1)
         | None \<Rightarrow>
             (case aes_NewCipher hash of
                Inl e \<Rightarrow> (Returns ([], None, Some e), rd1)
              | Inr block \<Rightarrow>
                  (case cipher_NewGCM block of
                     Inl e \<Rightarrow> (Returns ([], None, Some e), rd1)
                   | Inr g \<Rightarrow>
                       (let ((nonce, _), rd2) = ReadFull rd1 (replicate (NonceSize g) 0)
                        in case Seal c g nonce nonce data [] of
                             Panics p \<Rightarrow> (Panics p, rd2)
                           | Returns ciphertext \<Rightarrow> (Returns (ciphertext, salt, None), rd2)))))"

text \<open>
  \<^verbatim>\<open>Decrypt(data, salt, pass)\<close> returns the plaintext and the error. Nothing checks
  the length of \<open>data\<close> before \<^verbatim>\<open>data[:nonceSize], data[nonceSize:]\<close>: when \<open>data\<close>
  is shorter than the nonce, the first slice expression panics if the capacity is
  too small as well, and the second one panics in every case.
\<close>

definition Decrypt ::
  "crypto \<Rightarrow> reader \<Rightarrow> bytes \<Rightarrow> bytes option \<Rightarrow> string \<Rightarrow> (bytes \<times> error option) outcome \<times> reader" where
  "Decrypt c rd data salt pass =
     (let ((_, hash, err), rd1) = createHash c rd salt pass
      in case err of
           Some e \<Rightarrow> (Returns ([], Some e), rd1)
         | None \<Rightarrow>
             (case aes_NewCipher hash of
                Inl e \<Rightarrow> (Returns ([], Some e), rd1)
              | Inr block \<Rightarrow>
                  (case cipher_NewGCM block of
                     Inl e \<Rightarrow> (Returns ([], Some e), rd1)
                   | Inr g \<Rightarrow>
                       (let nonceSize = NonceSize g
                        in if length data < nonceSize then (Panics SliceBoundsOutOfRange, rd1)
                           else
                             (let nonce = take nonceSize data;
                                  ciphertext = drop nonceSize data
                              in case Open c g [] nonce ciphertext [] of
                                   Panics p \<Rightarrow> (Panics p, rd1)
                                 | Returns (plaintext, Some e) \<Rightarrow> (Returns ([], Some e), rd1)
                                 | Returns (plaintext, None) \<Rightarrow> (Returns (plaintext, None), rd1))))))"

section \<open>Contracts of the primitives\<close>

text \<open>
  What the proofs use of scrypt and AES-GCM: a derived key has the requested
  length; a sealed payload is the plaintext's length plus the tag; opening what
  was sealed under the same key, nonce and additional data gives the plaintext
  back; and whatever opens was sealed from the plaintext returned.
\<close>

definition scrypt_length :: "crypto \<Rightarrow> bool" where
  "scrypt_length c \<longleftrightarrow>
     (\<forall>pw salt N r p keyLen dk. scrypt_Key c pw salt N r p keyLen = Inr dk \<longrightarrow> length dk = keyLen)"

definition gcm_overhead :: "crypto \<Rightarrow> bool" where
  "gcm_overhead c \<longleftrightarrow>
     (\<forall>key nonce pt ad. length (gcm_seal c key nonce pt ad) = length pt + tagSize)"

definition gcm_roundtrip :: "crypto \<Rightarrow> bool" where
  "gcm_roundtrip c \<longleftrightarrow>
     (\<forall>key nonce pt ad. gcm_open c key nonce (gcm_seal c key nonce pt ad) ad = Some pt)"

definition gcm_open_sound :: "crypto \<Rightarrow> bool" where
  "gcm_open_sound c \<longleftrightarrow>
     (\<forall>key nonce ct ad pt. gcm_open c key nonce ct ad = Some pt \<longrightarrow> gcm_seal c key nonce pt ad = ct)"

section \<open>A small instance of the primitives\<close>

text \<open>
  To run the model on concrete inputs the primitives need values. The instance
  below is not scrypt or AES-GCM: the key is a byte computed from password, salt
  and cost repeated to the requested length, the payload is the plaintext shifted
  by a key-stream byte, and the tag repeats a checksum of key, nonce, additional
  data and payload. It is deterministic and meets the four contracts.
\<close>

definition demo_scrypt :: "bytes \<Rightarrow> bytes \<Rightarrow> nat \<Rightarrow> nat \<Rightarrow> nat \<Rightarrow> nat \<Rightarrow> string + bytes" where
  "demo_scrypt pw salt N r p keyLen =
     (if N \<le> 1 then Inl ''scrypt: N must be > 1 and a power of 2''
      else Inr (replicate keyLen (sum_list pw + 3 * sum_list salt + of_nat (length salt))))"

definition demo_pad :: "bytes \<Rightarrow> bytes \<Rightarrow> byte" where
  "demo_pad key nonce = sum_list (take 1 key) + sum_list nonce + 1"

definition demo_tag :: "bytes \<Rightarrow> bytes \<Rightarrow> bytes \<Rightarrow> bytes \<Rightarrow> bytes" where
  "demo_tag key nonce ad body =
     replicate tagSize (sum_list (take 1 key) + sum_list nonce + sum_list ad + sum_list body)"

definition demo_seal :: "bytes \<Rightarrow> bytes \<Rightarrow> bytes \<Rightarrow> bytes \<Rightarrow> bytes" where
  "demo_seal key nonce pt ad =
     (let body = map (\<lambda>b. b + demo_pad key nonce) pt in body @ demo_tag key nonce ad body)"

definition demo_open :: "bytes \<Rightarrow> bytes \<Rightarrow> bytes \<Rightarrow> bytes \<Rightarrow> bytes option" where
  "demo_open key nonce ct ad =
     (let body = take (length ct - tagSize) ct;
          tag = drop (length ct - tagSize) ct
      in if tagSize \<le> length ct \<and> tag = demo_tag key nonce ad body
         then Some (map (\<lambda>b. b - demo_pad key nonce) body)
         else None)"

definition demo :: crypto where
  "demo = \<lparr>scrypt_Key = demo_scrypt, gcm_seal = demo_seal, gcm_open = demo_open\<rparr>"

section \<open>Concrete inputs\<close>

text \<open>
  The plaintext of the README's example, a salt, random sources that hold 28
  bytes (enough for a salt and a nonce), 16 bytes (a salt only) and none, the
  blobs the instance produces from each of them, and the first blob with its last
  byte changed.
\<close>

definition hello :: bytes where
  "hello = bytes_of_string ''Hello World''"

definition salt16 :: bytes where
  "salt16 = [1, 2, 3, 4, 5, 6, 7, 8, 9, 10, 11, 12, 13, 14, 15, 16]"

definition source28 :: reader where
  "source28 = Reader [1, 2, 3, 4, 5, 6, 7, 8, 9, 10, 11, 12, 13, 14, 15, 16,
                      17, 18, 19, 20, 21, 22, 23, 24, 25, 26, 27, 28] EOF"

definition source16 :: reader where
  "source16 = Reader salt16 EOF"

definition exhausted :: reader where
  "exhausted = Reader [] EOF"

definition blob28 :: bytes where
  "blob28 = [17, 18, 19, 20, 21, 22, 23, 24, 25, 26, 27, 28,
             70, 99, 106, 106, 109, 30, 85, 109, 112, 106, 98,
             3, 3, 3, 3, 3, 3, 3, 3, 3, 3, 3, 3, 3, 3, 3, 3]"

definition blob0 :: bytes where
  "blob0 = [0, 0, 0, 0, 0, 0, 0, 0, 0, 0, 0, 0,
            144, 173, 180, 180, 183, 104, 159, 183, 186, 180, 172,
            123, 123, 123, 123, 123, 123, 123, 123, 123, 123, 123, 123, 123, 123, 123, 123]"

definition blob16 :: bytes where
  "blob16 = [0, 0, 0, 0, 0, 0, 0, 0, 0, 0, 0, 0,
             56, 85, 92, 92, 95, 16, 71, 95, 98, 92, 84,
             91, 91, 91, 91, 91, 91, 91, 91, 91, 91, 91, 91, 91, 91, 91, 91]"

definition tampered :: bytes where
  "tampered = [17, 18, 19, 20, 21, 22, 23, 24, 25, 26, 27, 28,
               70, 99, 106, 106, 109, 30, 85, 109, 112, 106, 98,
               3, 3, 3, 3, 3, 3, 3, 3, 3, 3, 3, 3, 3, 3, 3, 4]"

section \<open>Facts about the model\<close>

lemma ReadFull_length: "length (fst (fst (ReadFull rd buf))) = length buf"
  by (simp add: ReadFull_def)

lemma createHash_Some:
  "createHash c rd (Some s) W =
     (case scrypt_Key c (bytes_of_string ''some password'') s 32768 8 1 32 of
        Inl msg \<Rightarrow> ((Some s, [], Some (ErrScrypt msg)), rd)
      | Inr dk \<Rightarrow> ((Some s, dk, None), rd))"
  by (simp add: createHash_def slice_of_def)

lemma createHash_None:
  "createHash c rd None W =
     (case scrypt_Key c (bytes_of_string ''some password'')
             (slice_of (fst (fst (genSalt rd 16)))) 32768 8 1 32 of
        Inl msg \<Rightarrow> ((fst (fst (genSalt rd 16)), [], Some (ErrScrypt msg)), snd (genSalt rd 16))
      | Inr dk \<Rightarrow> ((fst (fst (genSalt rd 16)), dk, None), snd (genSalt rd 16)))"
  by (simp add: createHash_def)

lemma createHash_ok_key:
  "createHash c rd salt W = ((salt', hash, None), rd1) \<Longrightarrow>
     scrypt_Key c (bytes_of_string ''some password'') (slice_of salt') 32768 8 1 32 = Inr hash"
  by (cases salt) (auto simp: createHash_def slice_of_def split: sum.splits)


lemma Encrypt_success:
  assumes "Encrypt c rd P W = (Returns (blob, salt, None), rd')"
  obtains hash rd1 where
    "createHash c rd None W = ((salt, hash, None), rd1)"
    "aes_NewCipher hash = Inr (Block hash)"
    "length P \<le> max_plaintext (GCM (Block hash))"
    "blob = fst (fst (ReadFull rd1 (replicate 12 0))) @
            gcm_seal c hash (fst (fst (ReadFull rd1 (replicate 12 0)))) P []"
    "rd' = snd (ReadFull rd1 (replicate 12 0))"
proof -
  obtain sa hash err rd1 where ch: "createHash c rd None W = ((sa, hash, err), rd1)"
    by (cases "createHash c rd None W") auto
  from assms ch have err: "err = None"
    by (auto simp: Encrypt_def split: option.splits)
  from assms ch err obtain b where b: "aes_NewCipher hash = Inr b"
    by (auto simp: Encrypt_def split: sum.splits)
  then have bk: "b = Block hash"
    by (auto simp: aes_NewCipher_def split: if_splits)
  have g: "cipher_NewGCM b = Inr (GCM b)"
    by (simp add: cipher_NewGCM_def BlockSize_def)
  obtain nonce e rd2 where rf: "ReadFull rd1 (replicate (NonceSize (GCM b)) 0) = ((nonce, e), rd2)"
    by (cases "ReadFull rd1 (replicate (NonceSize (GCM b)) 0)") auto
  have "Encrypt c rd P W = (case Seal c (GCM b) nonce nonce P [] of
                             Panics p \<Rightarrow> (Panics p, rd2)
                           | Returns ciphertext \<Rightarrow> (Returns (ciphertext, sa, None), rd2))"
    by (simp add: Encrypt_def ch err b g rf)
  with assms
  have "sa = salt \<and> length P \<le> max_plaintext (GCM b) \<and>
        blob = nonce @ gcm_seal c hash nonce P [] \<and> rd' = rd2"
    by (auto simp: Seal_def bk split: if_splits)
  moreover have "nonce = fst (fst (ReadFull rd1 (replicate 12 0)))" "rd2 = snd (ReadFull rd1 (replicate 12 0))"
    using rf by (simp_all add: NonceSize_def)
  ultimately show thesis
    using ch err b bk that by simp
qed

lemma Decrypt_keyed:
  assumes "createHash c rd salt W = ((sa, hash, None), rd1)"
    and "aes_NewCipher hash = Inr (Block hash)"
    and "12 \<le> length data"
  shows "Decrypt c rd data salt W =
     (case Open c (GCM (Block hash)) [] (take 12 data) (drop 12 data) [] of
        Panics p \<Rightarrow> (Panics p, rd1)
      | Returns (plaintext, Some e) \<Rightarrow> (Returns ([], Some e), rd1)
      | Returns (plaintext, None) \<Rightarrow> (Returns (plaintext, None), rd1))"
  using assms
  by (simp add: Decrypt_def cipher_NewGCM_def BlockSize_def NonceSize_def)

lemma Open_sealed:
  assumes "gcm_overhead c" and "gcm_roundtrip c"
    and "length nonce = 12" and "length P \<le> max_plaintext g"
  shows "Open c g [] nonce (gcm_seal c (block_key (gcm_block g)) nonce P []) [] = Returns (P, None)"
  using assms
  by (simp add: Open_def NonceSize_def gcm_overhead_def gcm_roundtrip_def)

lemma Decrypt_of_sealed:
  assumes ov: "gcm_overhead c" and rt: "gcm_roundtrip c"
    and key: "scrypt_Key c (bytes_of_string ''some password'') s 32768 8 1 32 = Inr hash"
    and nc: "aes_NewCipher hash = Inr (Block hash)"
    and ln: "length nonce = 12"
    and le: "length P \<le> max_plaintext (GCM (Block hash))"
  shows "Decrypt c rd (nonce @ gcm_seal c hash nonce P []) (Some s) W = (Returns (P, None), rd)"
proof -
  define blob where "blob = nonce @ gcm_seal c hash nonce P []"
  from key have ch: "createHash c rd (Some s) W = ((Some s, hash, None), rd)"
    by (simp add: createHash_Some)
  have len: "12 \<le> length blob"
    by (simp add: blob_def ln)
  have op: "Open c (GCM (Block hash)) [] nonce (gcm_seal c hash nonce P []) [] = Returns (P, None)"
    using Open_sealed [OF ov rt ln le] by simp
  have "take 12 blob = nonce" "drop 12 blob = gcm_seal c hash nonce P []"
    by (simp_all add: blob_def ln)
  then have "Decrypt c rd blob (Some s) W = (Returns (P, None), rd)"
    using Decrypt_keyed [OF ch nc len] op by simp
  then show ?thesis
    by (simp add: blob_def)
qed

lemma demo_scrypt_length: "scrypt_length demo"
  by (auto simp: scrypt_length_def demo_def demo_scrypt_def split: if_splits)

lemma demo_gcm_overhead: "gcm_overhead demo"
  by (simp add: gcm_overhead_def demo_def demo_seal_def demo_tag_def Let_def)

lemma demo_gcm_roundtrip: "gcm_roundtrip demo"
  by (simp add: gcm_roundtrip_def demo_def demo_seal_def demo_open_def demo_tag_def Let_def
      comp_def)

lemma demo_gcm_open_sound: "gcm_open_sound demo"
proof -
  have "demo_seal key nonce pt ad = ct" if "demo_open key nonce ct ad = Some pt"
    for key nonce ct ad pt
  proof -
    define body where "body = take (length ct - tagSize) ct"
    from that have le: "tagSize \<le> length ct"
      and tag: "drop (length ct - tagSize) ct = demo_tag key nonce ad body"
      and pt: "pt = map (\<lambda>b. b - demo_pad key nonce) body"
      by (auto simp: demo_open_def Let_def body_def split: if_splits)
    have "map (\<lambda>b. b + demo_pad key nonce) pt = body"
      by (simp add: pt comp_def)
    then have "demo_seal key nonce pt ad = body @ demo_tag key nonce ad body"
      by (simp add: demo_seal_def Let_def)
    also have "\<dots> = ct"
      using append_take_drop_id [of "length ct - tagSize" ct] by (simp add: tag body_def)
    finally show ?thesis .
  qed
  then show ?thesis
    by (simp add: gcm_open_sound_def demo_def)
qed


text \<open>Running the instance: the simplifier unrolls \<open>replicate\<close> on numerals.\<close>

lemma replicate_numeral: "replicate (numeral k) x = x # replicate (pred_numeral k) x"
  by (simp add: numeral_eq_Suc)

lemmas demo_run = replicate_numeral
  Encrypt_def Decrypt_def createHash_def genSalt_def ReadFull_def Seal_def Open_def
  aes_NewCipher_def cipher_NewGCM_def BlockSize_def NonceSize_def tagSize_def max_plaintext_def
  bytes_of_string_def slice_of_def demo_def demo_scrypt_def demo_seal_def demo_open_def
  demo_tag_def demo_pad_def hello_def salt16_def

lemma Encrypt_demo_source28:
  "Encrypt demo source28 hello ''pass1'' = (Returns (blob28, Some salt16, None), exhausted)"
  by (simp add: demo_run source28_def blob28_def exhausted_def)

lemma createHash_cases:
  assumes "createHash c rd salt W = ((sa, h, err), rd1)"
  shows "(err = None \<and>
            scrypt_Key c (bytes_of_string ''some password'') (slice_of sa) 32768 8 1 32 = Inr h) \<or>
         (\<exists>msg. err = Some (ErrScrypt msg) \<and> h = [] \<and>
            scrypt_Key c (bytes_of_string ''some password'') (slice_of sa) 32768 8 1 32 = Inl msg)"
  using assms by (cases salt) (auto simp: createHash_def slice_of_def split: sum.splits)

lemma createHash_key_length:
  assumes "scrypt_length c" and "createHash c rd salt W = ((sa, h, None), rd1)"
  shows "length h = 32"
  using assms createHash_ok_key [OF assms(2)] by (simp add: scrypt_length_def)

lemma aes_NewCipher_32: "length h = 32 \<Longrightarrow> aes_NewCipher h = Inr (Block h)"
  by (simp add: aes_NewCipher_def)

lemma Decrypt_failed_key:
  assumes "createHash c rd salt W = ((sa, h, Some e), rd1)"
  shows "Decrypt c rd data salt W = (Returns ([], Some e), rd1)"
  using assms by (simp add: Decrypt_def)

lemma Decrypt_short:
  assumes "createHash c rd salt W = ((sa, h, None), rd1)"
    and "aes_NewCipher h = Inr (Block h)"
    and "length data < 12"
  shows "Decrypt c rd data salt W = (Panics SliceBoundsOutOfRange, rd1)"
  using assms by (simp add: Decrypt_def cipher_NewGCM_def BlockSize_def NonceSize_def)

lemma createHash_demo_salt16:
  "createHash demo rd (Some salt16) W = ((Some salt16, replicate 32 239, None), rd)"
  by (simp add: createHash_Some demo_def demo_scrypt_def bytes_of_string_def salt16_def)

lemma Open_result:
  assumes "gcm_open_sound c" and "length nonce = 12"
  shows "(\<exists>pt. Open c g [] nonce ct [] = Returns (pt, None) \<and>
               gcm_seal c (block_key (gcm_block g)) nonce pt [] = ct) \<or>
         (Open c g [] nonce ct [] = Returns ([], Some ErrOpen))"
  using assms
  by (auto simp: Open_def NonceSize_def gcm_open_sound_def split: option.splits)

lemma Encrypt_outcomes:
  assumes "scrypt_length c"
  shows "(\<exists>blob s. fst (Encrypt c rd P W) = Returns (blob, s, None)) \<or>
         (\<exists>msg. fst (Encrypt c rd P W) = Returns ([], None, Some (ErrScrypt msg))) \<or>
         fst (Encrypt c rd P W) = Panics MessageTooLarge"
proof -
  obtain sa h err rd1 where ch: "createHash c rd None W = ((sa, h, err), rd1)"
    by (cases "createHash c rd None W") auto
  show ?thesis
  proof (cases err)
    case (Some e)
    with createHash_cases [OF ch] obtain msg where "e = ErrScrypt msg"
      by auto
    with ch Some show ?thesis
      by (simp add: Encrypt_def)
  next
    case None
    with ch assms have "length h = 32"
      by (auto dest: createHash_key_length)
    then have nc: "aes_NewCipher h = Inr (Block h)"
      by (rule aes_NewCipher_32)
    obtain nonce e rd2 where rf: "ReadFull rd1 (replicate 12 0) = ((nonce, e), rd2)"
      by (cases "ReadFull rd1 (replicate 12 0)") auto
    have "length nonce = 12"
      using ReadFull_length [of rd1 "replicate 12 0"] rf by simp
    with ch None nc rf show ?thesis
      by (simp add: Encrypt_def cipher_NewGCM_def BlockSize_def NonceSize_def Seal_def)
  qed
qed

lemma Decrypt_outcomes:
  assumes "scrypt_length c"
  shows "(\<exists>pt. fst (Decrypt c rd data salt W) = Returns (pt, None)) \<or>
         (\<exists>msg. fst (Decrypt c rd data salt W) = Returns ([], Some (ErrScrypt msg))) \<or>
         fst (Decrypt c rd data salt W) = Returns ([], Some ErrOpen) \<or>
         fst (Decrypt c rd data salt W) = Panics SliceBoundsOutOfRange"
proof -
  obtain sa h err rd1 where ch: "createHash c rd salt W = ((sa, h, err), rd1)"
    by (cases "createHash c rd salt W") auto
  show ?thesis
  proof (cases err)
    case (Some e)
    with createHash_cases [OF ch] obtain msg where "e = ErrScrypt msg"
      by auto
    with ch Some show ?thesis
      by (simp add: Decrypt_def)
  next
    case None
    with ch assms have "length h = 32"
      by (auto dest: createHash_key_length)
    then have nc: "aes_NewCipher h = Inr (Block h)"
      by (rule aes_NewCipher_32)
    show ?thesis
    proof (cases "length data < 12")
      case True
      with ch None nc show ?thesis
        by (simp add: Decrypt_short)
    next
      case False
      then have len: "12 \<le> length data"
        by simp
      note dec = Decrypt_keyed [OF ch [unfolded None] nc len]
      show ?thesis
        unfolding dec using len
        by (auto simp: Open_def NonceSize_def split: option.splits)
    qed
  qed
qed

lemma Encrypt_keyed:
  assumes "createHash c rd None W = ((sa, h, None), rd1)"
    and "aes_NewCipher h = Inr (Block h)"
  shows "Encrypt c rd P W =
     (case Seal c (GCM (Block h)) (fst (fst (ReadFull rd1 (replicate 12 0))))
             (fst (fst (ReadFull rd1 (replicate 12 0)))) P [] of
        Panics p \<Rightarrow> (Panics p, snd (ReadFull rd1 (replicate 12 0)))
      | Returns ct \<Rightarrow> (Returns (ct, sa, None), snd (ReadFull rd1 (replicate 12 0))))"
  using assms
  by (simp add: Encrypt_def cipher_NewGCM_def BlockSize_def NonceSize_def split_beta
      split: outcome.splits)

lemma Decrypt_with_key:
  assumes "createHash c rd salt W = ((sa, h, None), rd1)"
    and "aes_NewCipher h = Inr (Block h)"
  shows "Decrypt c rd data salt W =
     (if length data < 12 then (Panics SliceBoundsOutOfRange, rd1)
      else case Open c (GCM (Block h)) [] (take 12 data) (drop 12 data) [] of
             Panics p \<Rightarrow> (Panics p, rd1)
           | Returns (pt, Some e) \<Rightarrow> (Returns ([], Some e), rd1)
           | Returns (pt, None) \<Rightarrow> (Returns (pt, None), rd1))"
  using assms
  by (simp add: Decrypt_def cipher_NewGCM_def BlockSize_def NonceSize_def)

section \<open>Round trip\<close>

text \<open>
  Whenever \<^verbatim>\<open>Encrypt(P, W)\<close> returns no error, a blob and a salt that is not nil,
  \<^verbatim>\<open>Decrypt\<close> of that blob with that salt and the same passphrase returns exactly
  \<open>P\<close> and no error, for every plaintext (the empty one included) and whatever
  the state of the random source at decryption. The proof needs of AES-GCM only
  that opening inverts sealing and that the tag adds 16 bytes.
\<close>

lemma Decrypt_Encrypt_roundtrip:
  assumes "gcm_overhead c" and "gcm_roundtrip c"
    and "Encrypt c rd P W = (Returns (blob, Some s, None), rd')"
  shows "Decrypt c rd2 blob (Some s) W = (Returns (P, None), rd2)"
proof -
  from assms(3) obtain hash rd1 where
    ch: "createHash c rd None W = ((Some s, hash, None), rd1)" and
    nc: "aes_NewCipher hash = Inr (Block hash)" and
    le: "length P \<le> max_plaintext (GCM (Block hash))" and
    bl: "blob = fst (fst (ReadFull rd1 (replicate 12 0))) @
            gcm_seal c hash (fst (fst (ReadFull rd1 (replicate 12 0)))) P []"
    by (rule Encrypt_success)
  have ln: "length (fst (fst (ReadFull rd1 (replicate 12 0)))) = 12"
    by (simp add: ReadFull_length)
  from ch have key: "scrypt_Key c (bytes_of_string ''some password'') s 32768 8 1 32 = Inr hash"
    by (auto dest: createHash_ok_key simp: slice_of_def)
  show ?thesis
    unfolding bl by (rule Decrypt_of_sealed [OF assms(1,2) key nc ln le])
qed

text \<open>
  The instance run on the README's plaintext: 28 random bytes give the salt
  \<open>1..16\<close> and the nonce \<open>17..28\<close>, and the blob decrypts to the plaintext.
\<close>

lemma Decrypt_Encrypt_roundtrip_run:
  "gcm_overhead demo \<and> gcm_roundtrip demo \<and>
   Encrypt demo source28 hello ''pass1'' = (Returns (blob28, Some salt16, None), exhausted) \<and>
   Decrypt demo source16 blob28 (Some salt16) ''pass1'' = (Returns (hello, None), source16)"
proof -
  note enc = Encrypt_demo_source28
  from Decrypt_Encrypt_roundtrip [OF demo_gcm_overhead demo_gcm_roundtrip enc]
  have "Decrypt demo source16 blob28 (Some salt16) ''pass1'' = (Returns (hello, None), source16)" .
  with demo_gcm_overhead demo_gcm_roundtrip enc show ?thesis
    by (intro conjI)
qed

text \<open>
  C1. The claim asks that \<^verbatim>\<open>Decrypt\<close> return \<open>P\<close> after every successful
  \<^verbatim>\<open>Encrypt(P, W)\<close>, given the blob and the salt it returned. The code breaks
  this where \<^verbatim>\<open>createHash\<close> drops the error of \<^verbatim>\<open>genSalt\<close>: when the source
  cannot deliver the 16 bytes of the salt, \<^verbatim>\<open>Encrypt\<close> still returns no error,
  with a nil salt and a blob sealed under the key of the empty salt and a zero
  nonce. \<^verbatim>\<open>Decrypt\<close> given that blob and that nil salt draws a fresh salt from a
  source that works again, derives the key of that salt, and returns the
  authentication error instead of \<open>P\<close> whenever AES-GCM rejects the blob under
  the other key.
\<close>

theorem Encrypt_nil_salt_breaks_roundtrip:
  assumes "length (pending rdE) < 16"
    and "scrypt_Key c (bytes_of_string ''some password'') [] 32768 8 1 32 = Inr k0"
    and "length k0 = 32"
    and "length P \<le> max_plaintext (GCM (Block k0))"
    and "16 \<le> length (pending rdD)"
    and "scrypt_Key c (bytes_of_string ''some password'') (take 16 (pending rdD)) 32768 8 1 32 = Inr k1"
    and "length k1 = 32"
    and "gcm_open c k1 (replicate 12 0) (gcm_seal c k0 (replicate 12 0) P []) [] = None"
    and "blob = replicate 12 0 @ gcm_seal c k0 (replicate 12 0) P []"
  shows "Encrypt c rdE P W = (Returns (blob, None, None), Reader [] (fault rdE)) \<and>
         Decrypt c rdD blob None W =
           (Returns ([], Some ErrOpen), Reader (drop 16 (pending rdD)) (fault rdD))"
proof
  from assms(1) have gs: "genSalt rdE 16 =
      ((None, Some (if pending rdE \<noteq> [] \<and> fault rdE = EOF then ErrUnexpectedEOF else fault rdE)),
       Reader [] (fault rdE))"
    by (simp add: genSalt_def ReadFull_def)
  with assms(2) have ch: "createHash c rdE None W = ((None, k0, None), Reader [] (fault rdE))"
    by (simp add: createHash_None slice_of_def)
  have rf: "ReadFull (Reader [] (fault rdE)) (replicate 12 0) =
      ((replicate 12 0, Some (fault rdE)), Reader [] (fault rdE))"
    by (simp add: ReadFull_def)
  have nc: "aes_NewCipher k0 = Inr (Block k0)"
    using assms(3) by (rule aes_NewCipher_32)
  show "Encrypt c rdE P W = (Returns (blob, None, None), Reader [] (fault rdE))"
    using assms(4)
    by (simp add: Encrypt_def ch nc cipher_NewGCM_def BlockSize_def NonceSize_def rf Seal_def
        assms(9))
next
  from assms(5) have gs: "genSalt rdD 16 =
      ((Some (take 16 (pending rdD)), None), Reader (drop 16 (pending rdD)) (fault rdD))"
    by (simp add: genSalt_def ReadFull_def)
  with assms(6) have ch: "createHash c rdD None W =
      ((Some (take 16 (pending rdD)), k1, None), Reader (drop 16 (pending rdD)) (fault rdD))"
    by (simp add: createHash_None slice_of_def)
  have nc: "aes_NewCipher k1 = Inr (Block k1)"
    using assms(7) by (rule aes_NewCipher_32)
  have len: "12 \<le> length blob"
    by (simp add: assms(9))
  have op: "Open c (GCM (Block k1)) [] (take 12 blob) (drop 12 blob) [] = Returns ([], Some ErrOpen)"
    using assms(8) by (simp add: Open_def NonceSize_def assms(9))
  show "Decrypt c rdD blob None W =
           (Returns ([], Some ErrOpen), Reader (drop 16 (pending rdD)) (fault rdD))"
    using Decrypt_keyed [OF ch nc len] op by simp
qed

text \<open>
  The instance: encryption of the README's plaintext on an exhausted source,
  decryption on a source that holds 16 bytes.
\<close>

theorem Encrypt_nil_salt_breaks_roundtrip_witness:
  "length (pending exhausted) < 16 \<and>
   scrypt_Key demo (bytes_of_string ''some password'') [] 32768 8 1 32 = Inr (replicate 32 71) \<and>
   length (replicate 32 (71 :: byte)) = 32 \<and>
   length hello \<le> max_plaintext (GCM (Block (replicate 32 71))) \<and>
   16 \<le> length (pending source16) \<and>
   scrypt_Key demo (bytes_of_string ''some password'') (take 16 (pending source16)) 32768 8 1 32 =
     Inr (replicate 32 239) \<and>
   length (replicate 32 (239 :: byte)) = 32 \<and>
   gcm_open demo (replicate 32 239) (replicate 12 0)
     (gcm_seal demo (replicate 32 71) (replicate 12 0) hello []) [] = None \<and>
   blob0 = replicate 12 0 @ gcm_seal demo (replicate 32 71) (replicate 12 0) hello [] \<and>
   Encrypt demo exhausted hello ''pass1'' = (Returns (blob0, None, None), exhausted) \<and>
   Decrypt demo source16 blob0 None ''pass1'' = (Returns ([], Some ErrOpen), exhausted)"
proof -
  have h1: "length (pending exhausted) < 16"
    by (simp add: exhausted_def)
  have h2: "scrypt_Key demo (bytes_of_string ''some password'') [] 32768 8 1 32 =
              Inr (replicate 32 71)"
    by (simp add: demo_def demo_scrypt_def bytes_of_string_def)
  have h3: "length (replicate 32 (71 :: byte)) = 32"
    by simp
  have h4: "length hello \<le> max_plaintext (GCM (Block (replicate 32 71)))"
    by (simp add: hello_def bytes_of_string_def max_plaintext_def BlockSize_def)
  have h5: "16 \<le> length (pending source16)"
    by (simp add: source16_def salt16_def)
  have h6: "scrypt_Key demo (bytes_of_string ''some password'') (take 16 (pending source16))
              32768 8 1 32 = Inr (replicate 32 239)"
    by (simp add: source16_def salt16_def demo_def demo_scrypt_def bytes_of_string_def)
  have h7: "length (replicate 32 (239 :: byte)) = 32"
    by simp
  have h9: "blob0 = replicate 12 0 @ gcm_seal demo (replicate 32 71) (replicate 12 0) hello []"
    by (simp add: blob0_def demo_def demo_seal_def demo_tag_def demo_pad_def tagSize_def hello_def
        bytes_of_string_def replicate_numeral)
  have h8: "gcm_open demo (replicate 32 239) (replicate 12 0)
     (gcm_seal demo (replicate 32 71) (replicate 12 0) hello []) [] = None"
    by (simp add: demo_def demo_seal_def demo_open_def demo_tag_def demo_pad_def tagSize_def
        hello_def bytes_of_string_def replicate_numeral)
  from Encrypt_nil_salt_breaks_roundtrip [OF h1 h2 h3 h4 h5 h6 h7 h8 h9, of "''pass1''"]
  have "Encrypt demo exhausted hello ''pass1'' = (Returns (blob0, None, None), exhausted) \<and>
        Decrypt demo source16 blob0 None ''pass1'' = (Returns ([], Some ErrOpen), exhausted)"
    by (simp add: exhausted_def source16_def salt16_def)
  with h1 h2 h3 h4 h5 h6 h7 h8 h9 show ?thesis
    by (intro conjI) blast+
qed

section \<open>The passphrase\<close>

text \<open>
  C2. \<^verbatim>\<open>createHash\<close> never reads the passphrase: for every salt (nil included,
  from the same state of the random source) two passphrases give the same result,
  and for a given salt \<open>s\<close> the key is scrypt of the literal \<^verbatim>\<open>"some password"\<close>
  and \<open>s\<close> with N = 32768, r = 8, p = 1 and 32 bytes of output, so it depends on
  the salt alone.
\<close>

theorem createHash_ignores_passphrase:
  "createHash c rd salt W1 = createHash c rd salt W2 \<and>
   createHash c rd (Some s) W1 =
     (case scrypt_Key c (bytes_of_string ''some password'') s 32768 8 1 32 of
        Inl msg \<Rightarrow> ((Some s, [], Some (ErrScrypt msg)), rd)
      | Inr dk \<Rightarrow> ((Some s, dk, None), rd))"
  by (simp add: createHash_def slice_of_def)

text \<open>
  C4. The claim asks that decryption with another passphrase fail to
  authenticate. The code does the opposite: since the key does not depend on the
  passphrase, \<^verbatim>\<open>Decrypt\<close> with any other passphrase \<open>W2\<close> returns the plaintext
  that was encrypted under \<open>W1\<close>.
\<close>

theorem Decrypt_accepts_other_passphrase:
  assumes "gcm_overhead c" and "gcm_roundtrip c"
    and "W1 \<noteq> W2"
    and "Encrypt c rd P W1 = (Returns (blob, Some s, None), rd')"
  shows "Decrypt c rd2 blob (Some s) W2 = (Returns (P, None), rd2)"
proof -
  from assms(4) obtain hash rd1 where
    ch: "createHash c rd None W1 = ((Some s, hash, None), rd1)" and
    nc: "aes_NewCipher hash = Inr (Block hash)" and
    le: "length P \<le> max_plaintext (GCM (Block hash))" and
    bl: "blob = fst (fst (ReadFull rd1 (replicate 12 0))) @
            gcm_seal c hash (fst (fst (ReadFull rd1 (replicate 12 0)))) P []"
    by (rule Encrypt_success)
  define nonce where "nonce = fst (fst (ReadFull rd1 (replicate 12 0)))"
  have ln: "length nonce = 12"
    by (simp add: nonce_def ReadFull_length)
  from ch have "scrypt_Key c (bytes_of_string ''some password'') s 32768 8 1 32 = Inr hash"
    by (auto dest: createHash_ok_key simp: slice_of_def)
  then have "Decrypt c rd2 (nonce @ gcm_seal c hash nonce P []) (Some s) W2 = (Returns (P, None), rd2)"
    using nc ln le by (intro Decrypt_of_sealed [OF assms(1,2)])
  then show ?thesis
    by (simp add: bl nonce_def)
qed

text \<open>The instance: encrypted with \<^verbatim>\<open>"pass1"\<close>, decrypted with \<^verbatim>\<open>"pass2"\<close>.\<close>

theorem Decrypt_accepts_other_passphrase_witness:
  "gcm_overhead demo \<and> gcm_roundtrip demo \<and> ''pass1'' \<noteq> ''pass2'' \<and>
   Encrypt demo source28 hello ''pass1'' = (Returns (blob28, Some salt16, None), exhausted) \<and>
   Decrypt demo exhausted blob28 (Some salt16) ''pass2'' = (Returns (hello, None), exhausted)"
proof -
  have ne: "''pass1'' \<noteq> ''pass2''"
    by simp
  note enc = Encrypt_demo_source28
  from Decrypt_accepts_other_passphrase [OF demo_gcm_overhead demo_gcm_roundtrip ne enc]
  have "Decrypt demo exhausted blob28 (Some salt16) ''pass2'' = (Returns (hello, None), exhausted)" .
  with demo_gcm_overhead demo_gcm_roundtrip ne enc show ?thesis
    by (intro conjI)
qed


section \<open>Blobs shorter than the nonce\<close>

text \<open>
  C3. The claim asks for an error result on a blob shorter than the 12-byte
  nonce. The code has no such check: when the key derivation succeeds,
  \<^verbatim>\<open>Decrypt\<close> panics at the slice expression for every such blob, and when the
  derivation fails it returns the error of scrypt. Either way the result is not
  an error about the blob.
\<close>

theorem Decrypt_short_blob_panics:
  assumes "scrypt_length c" and "length data < 12"
  shows "(createHash c rd salt W = ((sa, h, None), rd1) \<longrightarrow>
            Decrypt c rd data salt W = (Panics SliceBoundsOutOfRange, rd1)) \<and>
         (createHash c rd salt W = ((sa, h, Some e), rd1) \<longrightarrow>
            Decrypt c rd data salt W = (Returns ([], Some e), rd1) \<and> (\<exists>msg. e = ErrScrypt msg))"
proof (intro conjI impI)
  assume ch: "createHash c rd salt W = ((sa, h, None), rd1)"
  have nc: "aes_NewCipher h = Inr (Block h)"
    by (rule aes_NewCipher_32) (rule createHash_key_length [OF assms(1) ch])
  from ch nc assms(2) show "Decrypt c rd data salt W = (Panics SliceBoundsOutOfRange, rd1)"
    by (rule Decrypt_short)
next
  assume ch: "createHash c rd salt W = ((sa, h, Some e), rd1)"
  then show "Decrypt c rd data salt W = (Returns ([], Some e), rd1)"
    by (rule Decrypt_failed_key)
  from createHash_cases [OF ch] show "\<exists>msg. e = ErrScrypt msg"
    by auto
qed

text \<open>The instance on a blob of three bytes.\<close>

theorem Decrypt_short_blob_panics_witness:
  "scrypt_length demo \<and> length [7, 7, 7 :: byte] < 12 \<and>
   createHash demo exhausted (Some salt16) ''pass1'' = ((Some salt16, replicate 32 239, None), exhausted) \<and>
   Decrypt demo exhausted [7, 7, 7] (Some salt16) ''pass1'' = (Panics SliceBoundsOutOfRange, exhausted)"
proof -
  have len: "length [7, 7, 7 :: byte] < 12"
    by simp
  have ch: "createHash demo exhausted (Some salt16) ''pass1'' =
              ((Some salt16, replicate 32 239, None), exhausted)"
    by (rule createHash_demo_salt16)
  from Decrypt_short_blob_panics [OF demo_scrypt_length len] ch
  have "Decrypt demo exhausted [7, 7, 7] (Some salt16) ''pass1'' =
          (Panics SliceBoundsOutOfRange, exhausted)"
    by blast
  with demo_scrypt_length len ch show ?thesis
    by (intro conjI)
qed

section \<open>All or nothing\<close>

text \<open>
  For every blob of at least 12 bytes, every salt and every passphrase,
  \<^verbatim>\<open>Decrypt\<close> either returns a plaintext and no error, and then the blob is its
  first 12 bytes followed by exactly what sealing that plaintext under the
  derived key and those 12 bytes as nonce gives; or it returns an error and the
  nil plaintext. When the tag does not verify it returns the authentication error
  and the nil plaintext. The proof needs of AES-GCM only that what opens was
  sealed from the plaintext returned.
\<close>

lemma Decrypt_all_or_nothing:
  assumes "gcm_open_sound c" and "12 \<le> length data"
    and "createHash c rd salt W = ((sa, key, err), rd1)"
  shows "((\<exists>pt. Decrypt c rd data salt W = (Returns (pt, None), rd1) \<and>
                data = take 12 data @ gcm_seal c key (take 12 data) pt []) \<or>
          (\<exists>e. Decrypt c rd data salt W = (Returns ([], Some e), rd1))) \<and>
         (err = None \<and> aes_NewCipher key = Inr (Block key) \<and>
          gcm_open c key (take 12 data) (drop 12 data) [] = None \<longrightarrow>
            Decrypt c rd data salt W = (Returns ([], Some ErrOpen), rd1))"
proof (intro conjI impI)
  show "(\<exists>pt. Decrypt c rd data salt W = (Returns (pt, None), rd1) \<and>
               data = take 12 data @ gcm_seal c key (take 12 data) pt []) \<or>
        (\<exists>e. Decrypt c rd data salt W = (Returns ([], Some e), rd1))"
  proof (cases err)
    case (Some e)
    with assms(3) have "Decrypt c rd data salt W = (Returns ([], Some e), rd1)"
      by (simp add: Decrypt_failed_key)
    then show ?thesis by blast
  next
    case None
    note ch = assms(3) [unfolded None]
    show ?thesis
    proof (cases "aes_NewCipher key")
      case (Inl e)
      with ch have "Decrypt c rd data salt W = (Returns ([], Some e), rd1)"
        by (simp add: Decrypt_def)
      then show ?thesis by blast
    next
      case (Inr b)
      then have nc: "aes_NewCipher key = Inr (Block key)"
        by (auto simp: aes_NewCipher_def split: if_splits)
      have ln: "length (take 12 data) = 12"
        using assms(2) by simp
      note dec = Decrypt_keyed [OF ch nc assms(2)]
      from Open_result [OF assms(1) ln, of "GCM (Block key)" "drop 12 data"]
      show ?thesis
      proof
        assume "\<exists>pt. Open c (GCM (Block key)) [] (take 12 data) (drop 12 data) [] = Returns (pt, None) \<and>
                  gcm_seal c (block_key (gcm_block (GCM (Block key)))) (take 12 data) pt [] = drop 12 data"
        then obtain pt where
          op: "Open c (GCM (Block key)) [] (take 12 data) (drop 12 data) [] = Returns (pt, None)" and
          se: "gcm_seal c key (take 12 data) pt [] = drop 12 data"
          by auto
        have "Decrypt c rd data salt W = (Returns (pt, None), rd1)"
          using dec op by simp
        moreover have "data = take 12 data @ gcm_seal c key (take 12 data) pt []"
          by (simp add: se)
        ultimately show ?thesis by blast
      next
        assume "Open c (GCM (Block key)) [] (take 12 data) (drop 12 data) [] = Returns ([], Some ErrOpen)"
        with dec have "Decrypt c rd data salt W = (Returns ([], Some ErrOpen), rd1)"
          by simp
        then show ?thesis by blast
      qed
    qed
  qed
next
  assume a: "err = None \<and> aes_NewCipher key = Inr (Block key) \<and>
             gcm_open c key (take 12 data) (drop 12 data) [] = None"
  then have ch: "createHash c rd salt W = ((sa, key, None), rd1)"
    using assms(3) by simp
  from a have nc: "aes_NewCipher key = Inr (Block key)"
    by simp
  have "Open c (GCM (Block key)) [] (take 12 data) (drop 12 data) [] = Returns ([], Some ErrOpen)"
    using a assms(2) by (simp add: Open_def NonceSize_def)
  with Decrypt_keyed [OF ch nc assms(2)]
  show "Decrypt c rd data salt W = (Returns ([], Some ErrOpen), rd1)"
    by simp
qed

text \<open>The instance on a blob whose last tag byte was changed: nothing is released.\<close>

lemma Decrypt_all_or_nothing_run:
  "gcm_open_sound demo \<and> 12 \<le> length tampered \<and>
   createHash demo exhausted (Some salt16) ''pass1'' =
     ((Some salt16, replicate 32 239, None), exhausted) \<and>
   aes_NewCipher (replicate 32 239) = Inr (Block (replicate 32 239)) \<and>
   gcm_open demo (replicate 32 239) (take 12 tampered) (drop 12 tampered) [] = None \<and>
   Decrypt demo exhausted tampered (Some salt16) ''pass1'' = (Returns ([], Some ErrOpen), exhausted)"
proof -
  have len: "12 \<le> length tampered"
    by (simp add: tampered_def)
  note ch = createHash_demo_salt16 [of exhausted "''pass1''"]
  have nc: "aes_NewCipher (replicate 32 239) = Inr (Block (replicate 32 239))"
    by (simp add: aes_NewCipher_def)
  have op: "gcm_open demo (replicate 32 239) (take 12 tampered) (drop 12 tampered) [] = None"
    by (simp add: tampered_def demo_def demo_open_def demo_tag_def tagSize_def replicate_numeral)
  from Decrypt_all_or_nothing [OF demo_gcm_open_sound len ch] nc op
  have "Decrypt demo exhausted tampered (Some salt16) ''pass1'' =
          (Returns ([], Some ErrOpen), exhausted)"
    by blast
  with demo_gcm_open_sound len ch nc op show ?thesis
    by (intro conjI)
qed

text \<open>
  C5. The claim asks that \<^verbatim>\<open>Decrypt\<close> return, for every blob, either the
  plaintext with no error or an error with the nil plaintext. The code breaks
  this on every blob shorter than 12 bytes, by the missing length check: once
  the key is derived from the given salt, \<^verbatim>\<open>Decrypt\<close> panics at the slice
  expression, so it returns neither a plaintext nor an error.
\<close>

theorem Decrypt_short_blob_returns_nothing:
  assumes "scrypt_Key c (bytes_of_string ''some password'') s 32768 8 1 32 = Inr key"
    and "length key = 32"
    and "length data < 12"
  shows "Decrypt c rd data (Some s) W = (Panics SliceBoundsOutOfRange, rd) \<and>
         fst (Decrypt c rd data (Some s) W) \<noteq> Returns (pt, None) \<and>
         fst (Decrypt c rd data (Some s) W) \<noteq> Returns ([], Some e)"
proof -
  from assms(1) have ch: "createHash c rd (Some s) W = ((Some s, key, None), rd)"
    by (simp add: createHash_Some)
  have nc: "aes_NewCipher key = Inr (Block key)"
    using assms(2) by (rule aes_NewCipher_32)
  from ch nc assms(3) have "Decrypt c rd data (Some s) W = (Panics SliceBoundsOutOfRange, rd)"
    by (rule Decrypt_short)
  then show ?thesis
    by simp
qed

text \<open>The instance on the empty blob.\<close>

theorem Decrypt_short_blob_returns_nothing_witness:
  "scrypt_Key demo (bytes_of_string ''some password'') salt16 32768 8 1 32 = Inr (replicate 32 239) \<and>
   length (replicate 32 (239 :: byte)) = 32 \<and>
   length ([] :: bytes) < 12 \<and>
   Decrypt demo source28 [] (Some salt16) ''pass1'' = (Panics SliceBoundsOutOfRange, source28)"
proof -
  have h1: "scrypt_Key demo (bytes_of_string ''some password'') salt16 32768 8 1 32 =
              Inr (replicate 32 239)"
    by (simp add: salt16_def demo_def demo_scrypt_def bytes_of_string_def)
  have h2: "length (replicate 32 (239 :: byte)) = 32"
    by simp
  have h3: "length ([] :: bytes) < 12"
    by simp
  from Decrypt_short_blob_returns_nothing [OF h1 h2 h3]
  have "Decrypt demo source28 [] (Some salt16) ''pass1'' = (Panics SliceBoundsOutOfRange, source28)"
    by blast
  with h1 h2 h3 show ?thesis
    by (intro conjI)
qed

section \<open>Layout of the blob\<close>

text \<open>
  C6. A successful \<^verbatim>\<open>Encrypt(P, W)\<close> returns a blob of exactly
  \<open>12 + length P + 16\<close> bytes: its first 12 bytes are the nonce buffer as the read
  from the random source left it, and the rest is the payload sealed from \<open>P\<close>
  under the derived key and that nonce with no additional data, which is 16 bytes
  (the tag) longer than \<open>P\<close>. For the 11 bytes of \<^verbatim>\<open>"Hello World"\<close> the blob has
  39 bytes. The proof needs of AES-GCM only that the tag adds 16 bytes.
\<close>

theorem Encrypt_blob_layout:
  assumes "gcm_overhead c"
    and "Encrypt c rd P W = (Returns (blob, salt, None), rd')"
    and "createHash c rd None W = ((sa, key, err), rd1)"
    and "nonce = fst (fst (ReadFull rd1 (replicate 12 0)))"
  shows "length blob = 12 + length P + 16 \<and>
         length nonce = 12 \<and> take 12 blob = nonce \<and>
         drop 12 blob = gcm_seal c key nonce P [] \<and>
         length (drop 12 blob) = length P + 16 \<and>
         (P = bytes_of_string ''Hello World'' \<longrightarrow> length blob = 39)"
proof -
  from assms(2) obtain hash rd1' where
    ch: "createHash c rd None W = ((salt, hash, None), rd1')" and
    bl: "blob = fst (fst (ReadFull rd1' (replicate 12 0))) @
            gcm_seal c hash (fst (fst (ReadFull rd1' (replicate 12 0)))) P []"
    by (rule Encrypt_success)
  from ch assms(3) have eq: "hash = key" "rd1' = rd1"
    by simp_all
  have ln: "length nonce = 12"
    by (simp add: assms(4) ReadFull_length)
  have blob: "blob = nonce @ gcm_seal c key nonce P []"
    using bl eq assms(4) by simp
  have sealed: "length (gcm_seal c key nonce P []) = length P + 16"
    using assms(1) by (simp add: gcm_overhead_def tagSize_def)
  have total: "length blob = 12 + length P + 16"
    by (simp add: blob ln sealed)
  have "length (bytes_of_string ''Hello World'') = 11"
    by (simp add: bytes_of_string_def)
  with total have "P = bytes_of_string ''Hello World'' \<longrightarrow> length blob = 39"
    by simp
  with total ln sealed show ?thesis
    by (simp add: blob)
qed

text \<open>The instance on \<^verbatim>\<open>"Hello World"\<close>: 39 bytes, nonce \<open>17..28\<close> first.\<close>

theorem Encrypt_blob_layout_witness:
  "gcm_overhead demo \<and>
   Encrypt demo source28 hello ''pass1'' = (Returns (blob28, Some salt16, None), exhausted) \<and>
   createHash demo source28 None ''pass1'' =
     ((Some salt16, replicate 32 239, None), Reader [17, 18, 19, 20, 21, 22, 23, 24, 25, 26, 27, 28] EOF) \<and>
   hello = bytes_of_string ''Hello World'' \<and>
   length blob28 = 39 \<and>
   take 12 blob28 = [17, 18, 19, 20, 21, 22, 23, 24, 25, 26, 27, 28] \<and>
   drop 12 blob28 = gcm_seal demo (replicate 32 239) [17, 18, 19, 20, 21, 22, 23, 24, 25, 26, 27, 28] hello []"
proof -
  note enc = Encrypt_demo_source28
  have ch: "createHash demo source28 None ''pass1'' =
     ((Some salt16, replicate 32 239, None), Reader [17, 18, 19, 20, 21, 22, 23, 24, 25, 26, 27, 28] EOF)"
    by (simp add: demo_run source28_def)
  have nonce: "[17, 18, 19, 20, 21, 22, 23, 24, 25, 26, 27, 28] =
      fst (fst (ReadFull (Reader [17, 18, 19, 20, 21, 22, 23, 24, 25, 26, 27, 28] EOF) (replicate 12 0)))"
    by (simp add: ReadFull_def)
  have h: "hello = bytes_of_string ''Hello World''"
    by (simp add: hello_def)
  from Encrypt_blob_layout [OF demo_gcm_overhead enc ch nonce] h
  have "length blob28 = 39 \<and>
   take 12 blob28 = [17, 18, 19, 20, 21, 22, 23, 24, 25, 26, 27, 28] \<and>
   drop 12 blob28 = gcm_seal demo (replicate 32 239) [17, 18, 19, 20, 21, 22, 23, 24, 25, 26, 27, 28] hello []"
    by blast
  with demo_gcm_overhead enc ch h show ?thesis
    by (intro conjI) blast+
qed


section \<open>Key derivation\<close>

text \<open>
  C7. For a given salt \<open>s\<close> and passphrase, \<^verbatim>\<open>createHash\<close> returns the same
  result in every state of the random source, which it leaves untouched. Whenever
  scrypt of the salt with N = 32768, r = 8, p = 1 and 32 bytes of output gives a
  key, that key has 32 bytes and every call of \<^verbatim>\<open>createHash\<close> with that salt
  returns it with the salt and no error; when scrypt reports an error, every
  call returns that error; and a key that \<^verbatim>\<open>createHash\<close> returns is the one
  scrypt gave. The proof needs of scrypt only that a derived key has the
  requested length.
\<close>

theorem createHash_deterministic:
  assumes "scrypt_length c"
  shows "fst (createHash c rd1 (Some s) W) = fst (createHash c rd2 (Some s) W) \<and>
         snd (createHash c rd1 (Some s) W) = rd1 \<and>
         (scrypt_Key c (bytes_of_string ''some password'') s 32768 8 1 32 = Inr k \<longrightarrow>
            length k = 32 \<and>
            createHash c rd1 (Some s) W = ((Some s, k, None), rd1) \<and>
            createHash c rd2 (Some s) W = ((Some s, k, None), rd2)) \<and>
         (scrypt_Key c (bytes_of_string ''some password'') s 32768 8 1 32 = Inl msg \<longrightarrow>
            createHash c rd1 (Some s) W = ((Some s, [], Some (ErrScrypt msg)), rd1)) \<and>
         (createHash c rd1 (Some s) W = ((sa, k', None), rd') \<longrightarrow>
            length k' = 32 \<and>
            scrypt_Key c (bytes_of_string ''some password'') s 32768 8 1 32 = Inr k' \<and>
            createHash c rd2 (Some s) W = ((Some s, k', None), rd2))"
proof (intro conjI impI)
  show "fst (createHash c rd1 (Some s) W) = fst (createHash c rd2 (Some s) W)"
    by (simp add: createHash_Some split: sum.splits)
  show "snd (createHash c rd1 (Some s) W) = rd1"
    by (simp add: createHash_Some split: sum.splits)
next
  assume key: "scrypt_Key c (bytes_of_string ''some password'') s 32768 8 1 32 = Inr k"
  with assms show "length k = 32"
    by (simp add: scrypt_length_def)
  from key show "createHash c rd1 (Some s) W = ((Some s, k, None), rd1)"
    by (simp add: createHash_Some)
  from key show "createHash c rd2 (Some s) W = ((Some s, k, None), rd2)"
    by (simp add: createHash_Some)
next
  assume "scrypt_Key c (bytes_of_string ''some password'') s 32768 8 1 32 = Inl msg"
  then show "createHash c rd1 (Some s) W = ((Some s, [], Some (ErrScrypt msg)), rd1)"
    by (simp add: createHash_Some)
next
  assume ch: "createHash c rd1 (Some s) W = ((sa, k', None), rd')"
  from assms ch show "length k' = 32"
    by (rule createHash_key_length)
  from ch have sa: "sa = Some s"
    by (simp add: createHash_Some split: sum.splits)
  from createHash_ok_key [OF ch]
  show key: "scrypt_Key c (bytes_of_string ''some password'') s 32768 8 1 32 = Inr k'"
    by (simp add: sa slice_of_def)
  then show "createHash c rd2 (Some s) W = ((Some s, k', None), rd2)"
    by (simp add: createHash_Some)
qed

text \<open>The instance, from a full and from an exhausted random source.\<close>

theorem createHash_deterministic_witness:
  "scrypt_length demo \<and>
   scrypt_Key demo (bytes_of_string ''some password'') salt16 32768 8 1 32 = Inr (replicate 32 239) \<and>
   length (replicate 32 (239 :: byte)) = 32 \<and>
   createHash demo source28 (Some salt16) ''pass1'' = ((Some salt16, replicate 32 239, None), source28) \<and>
   createHash demo exhausted (Some salt16) ''pass1'' = ((Some salt16, replicate 32 239, None), exhausted)"
proof -
  have key: "scrypt_Key demo (bytes_of_string ''some password'') salt16 32768 8 1 32 =
               Inr (replicate 32 239)"
    by (simp add: salt16_def demo_def demo_scrypt_def bytes_of_string_def)
  from createHash_deterministic [OF demo_scrypt_length, of source28 salt16 "''pass1''" exhausted] key
  have "length (replicate 32 (239 :: byte)) = 32 \<and>
        createHash demo source28 (Some salt16) ''pass1'' =
          ((Some salt16, replicate 32 239, None), source28) \<and>
        createHash demo exhausted (Some salt16) ''pass1'' =
          ((Some salt16, replicate 32 239, None), exhausted)"
    by blast
  with demo_scrypt_length key show ?thesis
    by (intro conjI) blast+
qed

text \<open>
  C10. Whenever the derivation succeeds the key has 32 bytes, \<^verbatim>\<open>aes.NewCipher\<close>
  accepts it, and the cipher built from it is AES-256. \<^verbatim>\<open>Encrypt\<close> seals the
  plaintext with the mode built over exactly that cipher, and \<^verbatim>\<open>Decrypt\<close>
  opens the blob with the mode built over exactly that cipher; neither of them
  ever returns a key-size error. The proof needs of scrypt only that a derived
  key has the requested length.
\<close>

theorem derived_key_builds_AES256:
  assumes "scrypt_length c"
  shows
    "(createHash c rd None W = ((sa, h, None), rd1) \<longrightarrow>
        length h = 32 \<and> aes_NewCipher h = Inr (Block h) \<and>
        cipher_NewGCM (Block h) = Inr (GCM (Block h)) \<and> aes_bits (Block h) = 256 \<and>
        Encrypt c rd P W =
          (case Seal c (GCM (Block h)) (fst (fst (ReadFull rd1 (replicate 12 0))))
                  (fst (fst (ReadFull rd1 (replicate 12 0)))) P [] of
             Panics p \<Rightarrow> (Panics p, snd (ReadFull rd1 (replicate 12 0)))
           | Returns ct \<Rightarrow> (Returns (ct, sa, None), snd (ReadFull rd1 (replicate 12 0))))) \<and>
     (createHash c rd salt W = ((sa', h', None), rd1') \<longrightarrow>
        length h' = 32 \<and> aes_NewCipher h' = Inr (Block h') \<and>
        cipher_NewGCM (Block h') = Inr (GCM (Block h')) \<and> aes_bits (Block h') = 256 \<and>
        Decrypt c rd data salt W =
          (if length data < 12 then (Panics SliceBoundsOutOfRange, rd1')
           else case Open c (GCM (Block h')) [] (take 12 data) (drop 12 data) [] of
                  Panics p \<Rightarrow> (Panics p, rd1')
                | Returns (pt, Some e) \<Rightarrow> (Returns ([], Some e), rd1')
                | Returns (pt, None) \<Rightarrow> (Returns (pt, None), rd1'))) \<and>
     fst (Encrypt c rd P W) \<noteq> Returns (blob, s, Some (KeySizeError n)) \<and>
     fst (Decrypt c rd data salt W) \<noteq> Returns (pt', Some (KeySizeError n))"
proof (intro conjI impI)
  assume ch: "createHash c rd None W = ((sa, h, None), rd1)"
  with assms show len: "length h = 32"
    by (rule createHash_key_length)
  then show nc: "aes_NewCipher h = Inr (Block h)"
    by (rule aes_NewCipher_32)
  show "cipher_NewGCM (Block h) = Inr (GCM (Block h))"
    by (simp add: cipher_NewGCM_def BlockSize_def)
  from len show "aes_bits (Block h) = 256"
    by (simp add: aes_bits_def)
  from ch nc show "Encrypt c rd P W =
          (case Seal c (GCM (Block h)) (fst (fst (ReadFull rd1 (replicate 12 0))))
                  (fst (fst (ReadFull rd1 (replicate 12 0)))) P [] of
             Panics p \<Rightarrow> (Panics p, snd (ReadFull rd1 (replicate 12 0)))
           | Returns ct \<Rightarrow> (Returns (ct, sa, None), snd (ReadFull rd1 (replicate 12 0))))"
    by (rule Encrypt_keyed)
next
  assume ch: "createHash c rd salt W = ((sa', h', None), rd1')"
  with assms show len: "length h' = 32"
    by (rule createHash_key_length)
  then show nc: "aes_NewCipher h' = Inr (Block h')"
    by (rule aes_NewCipher_32)
  show "cipher_NewGCM (Block h') = Inr (GCM (Block h'))"
    by (simp add: cipher_NewGCM_def BlockSize_def)
  from len show "aes_bits (Block h') = 256"
    by (simp add: aes_bits_def)
  from ch nc show "Decrypt c rd data salt W =
          (if length data < 12 then (Panics SliceBoundsOutOfRange, rd1')
           else case Open c (GCM (Block h')) [] (take 12 data) (drop 12 data) [] of
                  Panics p \<Rightarrow> (Panics p, rd1')
                | Returns (pt, Some e) \<Rightarrow> (Returns ([], Some e), rd1')
                | Returns (pt, None) \<Rightarrow> (Returns (pt, None), rd1'))"
    by (rule Decrypt_with_key)
next
  from Encrypt_outcomes [OF assms, of rd P W]
  show "fst (Encrypt c rd P W) \<noteq> Returns (blob, s, Some (KeySizeError n))"
    by auto
  from Decrypt_outcomes [OF assms, of rd data salt W]
  show "fst (Decrypt c rd data salt W) \<noteq> Returns (pt', Some (KeySizeError n))"
    by auto
qed

text \<open>
  The instance: \<^verbatim>\<open>Encrypt\<close> with the key derived from a fresh salt, and
  \<^verbatim>\<open>Decrypt\<close> of its blob with the key derived from that salt.
\<close>

theorem derived_key_builds_AES256_witness:
  "scrypt_length demo \<and>
   createHash demo source28 None ''pass1'' =
     ((Some salt16, replicate 32 239, None), Reader [17, 18, 19, 20, 21, 22, 23, 24, 25, 26, 27, 28] EOF) \<and>
   length (replicate 32 (239 :: byte)) = 32 \<and>
   aes_NewCipher (replicate 32 239) = Inr (Block (replicate 32 239)) \<and>
   aes_bits (Block (replicate 32 239)) = 256 \<and>
   Encrypt demo source28 hello ''pass1'' = (Returns (blob28, Some salt16, None), exhausted) \<and>
   createHash demo exhausted (Some salt16) ''pass2'' =
     ((Some salt16, replicate 32 239, None), exhausted) \<and>
   Decrypt demo exhausted blob28 (Some salt16) ''pass2'' = (Returns (hello, None), exhausted)"
proof -
  let ?k = "replicate 32 (239 :: byte)"
  let ?r = "Reader [17, 18, 19, 20, 21, 22, 23, 24, 25, 26, 27, 28] EOF"
  have ch: "createHash demo source28 None ''pass1'' = ((Some salt16, ?k, None), ?r)"
    by (simp add: demo_run source28_def)
  have ch2: "createHash demo exhausted (Some salt16) ''pass2'' = ((Some salt16, ?k, None), exhausted)"
    by (rule createHash_demo_salt16)
  have seal: "(case Seal demo (GCM (Block ?k)) (fst (fst (ReadFull ?r (replicate 12 0))))
                  (fst (fst (ReadFull ?r (replicate 12 0)))) hello [] of
             Panics p \<Rightarrow> (Panics p, snd (ReadFull ?r (replicate 12 0)))
           | Returns ct \<Rightarrow> (Returns (ct, Some salt16, None), snd (ReadFull ?r (replicate 12 0)))) =
          (Returns (blob28, Some salt16, None), exhausted)"
    by (simp add: ReadFull_def Seal_def NonceSize_def max_plaintext_def BlockSize_def demo_def
        demo_seal_def demo_tag_def demo_pad_def tagSize_def hello_def bytes_of_string_def
        blob28_def exhausted_def replicate_numeral)
  have opn: "(if length blob28 < 12 then (Panics SliceBoundsOutOfRange, exhausted)
           else case Open demo (GCM (Block ?k)) [] (take 12 blob28) (drop 12 blob28) [] of
                  Panics p \<Rightarrow> (Panics p, exhausted)
                | Returns (pt, Some e) \<Rightarrow> (Returns ([], Some e), exhausted)
                | Returns (pt, None) \<Rightarrow> (Returns (pt, None), exhausted)) =
          (Returns (hello, None), exhausted)"
    by (simp add: Open_def NonceSize_def max_plaintext_def BlockSize_def demo_def
        demo_open_def demo_tag_def demo_pad_def tagSize_def hello_def bytes_of_string_def
        blob28_def replicate_numeral)
  from derived_key_builds_AES256 [OF demo_scrypt_length, of source28 "''pass1''"] ch
  have enc: "length ?k = 32 \<and> aes_NewCipher ?k = Inr (Block ?k) \<and> aes_bits (Block ?k) = 256 \<and>
        Encrypt demo source28 hello ''pass1'' =
          (case Seal demo (GCM (Block ?k)) (fst (fst (ReadFull ?r (replicate 12 0))))
                  (fst (fst (ReadFull ?r (replicate 12 0)))) hello [] of
             Panics p \<Rightarrow> (Panics p, snd (ReadFull ?r (replicate 12 0)))
           | Returns ct \<Rightarrow> (Returns (ct, Some salt16, None), snd (ReadFull ?r (replicate 12 0))))"
    by blast
  from derived_key_builds_AES256 [OF demo_scrypt_length, of exhausted "''pass2''"] ch2
  have dec: "Decrypt demo exhausted blob28 (Some salt16) ''pass2'' =
          (if length blob28 < 12 then (Panics SliceBoundsOutOfRange, exhausted)
           else case Open demo (GCM (Block ?k)) [] (take 12 blob28) (drop 12 blob28) [] of
                  Panics p \<Rightarrow> (Panics p, exhausted)
                | Returns (pt, Some e) \<Rightarrow> (Returns ([], Some e), exhausted)
                | Returns (pt, None) \<Rightarrow> (Returns (pt, None), exhausted))"
    by blast
  from enc seal have e: "Encrypt demo source28 hello ''pass1'' =
      (Returns (blob28, Some salt16, None), exhausted)"
    by simp
  from dec opn have d: "Decrypt demo exhausted blob28 (Some salt16) ''pass2'' =
      (Returns (hello, None), exhausted)"
    by simp
  from demo_scrypt_length ch enc e ch2 d show ?thesis
    by (intro conjI) blast+
qed

section \<open>Failures of the random source\<close>

text \<open>
  C8. The claim asks that a failed salt generation make the key derivation fail.
  The code does not: when the source cannot deliver 16 bytes, \<^verbatim>\<open>genSalt\<close>
  returns nil and an error, \<^verbatim>\<open>createHash\<close> discards that error, derives the key
  from the empty salt and returns the nil salt, the key and no error.
\<close>

theorem createHash_drops_salt_failure:
  assumes "length (pending rd) < 16"
    and "scrypt_Key c (bytes_of_string ''some password'') [] 32768 8 1 32 = Inr dk"
  shows "fst (fst (genSalt rd 16)) = None \<and> snd (fst (genSalt rd 16)) \<noteq> None \<and>
         createHash c rd None W = ((None, dk, None), Reader [] (fault rd))"
proof -
  from assms(1) have gs: "genSalt rd 16 =
      ((None, Some (if pending rd \<noteq> [] \<and> fault rd = EOF then ErrUnexpectedEOF else fault rd)),
       Reader [] (fault rd))"
    by (simp add: genSalt_def ReadFull_def)
  then show ?thesis
    using assms(2) by (simp add: createHash_None slice_of_def)
qed

text \<open>The instance on an exhausted source.\<close>

theorem createHash_drops_salt_failure_witness:
  "length (pending exhausted) < 16 \<and>
   scrypt_Key demo (bytes_of_string ''some password'') [] 32768 8 1 32 = Inr (replicate 32 71) \<and>
   genSalt exhausted 16 = ((None, Some EOF), exhausted) \<and>
   createHash demo exhausted None ''pass1'' = ((None, replicate 32 71, None), exhausted)"
proof -
  have len: "length (pending exhausted) < 16"
    by (simp add: exhausted_def)
  have key: "scrypt_Key demo (bytes_of_string ''some password'') [] 32768 8 1 32 = Inr (replicate 32 71)"
    by (simp add: demo_def demo_scrypt_def bytes_of_string_def)
  have gs: "genSalt exhausted 16 = ((None, Some EOF), exhausted)"
    by (simp add: genSalt_def ReadFull_def exhausted_def)
  from createHash_drops_salt_failure [OF len key, of "''pass1''"]
  have "createHash demo exhausted None ''pass1'' = ((None, replicate 32 71, None), exhausted)"
    by (simp add: exhausted_def)
  with len key gs show ?thesis
    by (intro conjI)
qed

text \<open>
  C9. The claim asks that a failed nonce generation make \<^verbatim>\<open>Encrypt\<close> fail. The
  code does not look at the result of the read: when the source delivers the 16
  bytes of the salt but fewer than the 12 of the nonce, \<^verbatim>\<open>Encrypt\<close> seals the
  plaintext under the partly filled nonce, zeros where no byte arrived, and
  returns the blob, the salt and no error.
\<close>

theorem Encrypt_ignores_nonce_failure:
  assumes "16 \<le> length (pending rd)" and "length (pending rd) < 28"
    and "scrypt_Key c (bytes_of_string ''some password'') (take 16 (pending rd)) 32768 8 1 32 = Inr dk"
    and "length dk = 32"
    and "length P \<le> max_plaintext (GCM (Block dk))"
    and "rd1 = snd (createHash c rd None W)"
    and "nonce = drop 16 (pending rd) @ replicate (28 - length (pending rd)) 0"
  shows "snd (fst (ReadFull rd1 (replicate 12 0))) \<noteq> None \<and>
         Encrypt c rd P W =
           (Returns (nonce @ gcm_seal c dk nonce P [], Some (take 16 (pending rd)), None),
            Reader [] (fault rd))"
proof -
  from assms(1) have gs: "genSalt rd 16 =
      ((Some (take 16 (pending rd)), None), Reader (drop 16 (pending rd)) (fault rd))"
    by (simp add: genSalt_def ReadFull_def)
  with assms(3) have ch: "createHash c rd None W =
      ((Some (take 16 (pending rd)), dk, None), Reader (drop 16 (pending rd)) (fault rd))"
    by (simp add: createHash_None slice_of_def)
  then have rd1: "rd1 = Reader (drop 16 (pending rd)) (fault rd)"
    by (simp add: assms(6))
  have eq: "12 - (length (pending rd) - 16) = 28 - length (pending rd)"
    using assms(1,2) by simp
  have short: "\<not> 12 \<le> length (pending rd) - 16"
    using assms(1,2) by simp
  from assms(1,2) have rf: "ReadFull rd1 (replicate 12 0) =
      ((nonce, Some (if drop 16 (pending rd) \<noteq> [] \<and> fault rd = EOF then ErrUnexpectedEOF
                     else fault rd)),
       Reader [] (fault rd))"
    by (simp add: rd1 ReadFull_def assms(7) eq short)
  have ln: "length nonce = 12"
    using assms(1,2) by (simp add: assms(7))
  have nc: "aes_NewCipher dk = Inr (Block dk)"
    using assms(4) by (rule aes_NewCipher_32)
  have "Encrypt c rd P W =
           (Returns (nonce @ gcm_seal c dk nonce P [], Some (take 16 (pending rd)), None),
            Reader [] (fault rd))"
    using assms(5) ln rf [unfolded rd1]
    by (simp add: Encrypt_def ch nc cipher_NewGCM_def BlockSize_def NonceSize_def Seal_def)
  with rf show ?thesis
    by simp
qed


text \<open>
  The instance on a source of exactly 16 bytes: the nonce is twelve zero bytes.
\<close>

theorem Encrypt_ignores_nonce_failure_witness:
  "16 \<le> length (pending source16) \<and> length (pending source16) < 28 \<and>
   scrypt_Key demo (bytes_of_string ''some password'') (take 16 (pending source16)) 32768 8 1 32 =
     Inr (replicate 32 239) \<and>
   length (replicate 32 (239 :: byte)) = 32 \<and>
   length hello \<le> max_plaintext (GCM (Block (replicate 32 239))) \<and>
   ReadFull exhausted (replicate 12 0) = ((replicate 12 0, Some EOF), exhausted) \<and>
   Encrypt demo source16 hello ''pass1'' = (Returns (blob16, Some salt16, None), exhausted)"
proof -
  have h1: "16 \<le> length (pending source16)" and h2: "length (pending source16) < 28"
    by (simp_all add: source16_def salt16_def)
  have h3: "scrypt_Key demo (bytes_of_string ''some password'') (take 16 (pending source16))
              32768 8 1 32 = Inr (replicate 32 239)"
    by (simp add: source16_def salt16_def demo_def demo_scrypt_def bytes_of_string_def)
  have h4: "length (replicate 32 (239 :: byte)) = 32"
    by simp
  have h5: "length hello \<le> max_plaintext (GCM (Block (replicate 32 239)))"
    by (simp add: hello_def bytes_of_string_def max_plaintext_def BlockSize_def)
  have rf: "ReadFull exhausted (replicate 12 0) = ((replicate 12 0, Some EOF), exhausted)"
    by (simp add: ReadFull_def exhausted_def)
  have "Encrypt demo source16 hello ''pass1'' =
          (Returns (replicate 12 0 @ gcm_seal demo (replicate 32 239) (replicate 12 0) hello [],
             Some salt16, None), exhausted)"
    using Encrypt_ignores_nonce_failure [OF h1 h2 h3 h4 h5 refl refl, of "''pass1''"]
    by (simp add: source16_def salt16_def exhausted_def)
  moreover have "replicate 12 0 @ gcm_seal demo (replicate 32 239) (replicate 12 0) hello [] = blob16"
    by (simp add: blob16_def demo_def demo_seal_def demo_tag_def demo_pad_def tagSize_def hello_def
        bytes_of_string_def replicate_numeral)
  ultimately have "Encrypt demo source16 hello ''pass1'' = (Returns (blob16, Some salt16, None), exhausted)"
    by simp
  with h1 h2 h3 h4 h5 rf show ?thesis
    by (intro conjI)
qed

end
